theory Spec2Isabelle
  imports Main "HOL-Library.AList" "HOL-Library.Multiset" "HOL-Library.Sublist"
begin

section \<open>git-search: the option set\<close>

text \<open>
  The \<^verbatim>\<open>options\<close> struct of \<^verbatim>\<open>main.go\<close>. Go strings are byte sequences and are
  modelled as \<^typ>\<open>string\<close>; the three counters are Go \<^verbatim>\<open>int\<close>s, on which the program
  does no arithmetic (it only compares them with 0 and prints them), so they are
  modelled as \<^typ>\<open>int\<close>. The positional argument \<^verbatim>\<open>PosArgs.Keyword\<close> is the field
  \<open>Keyword\<close>.
\<close>

record options =
  GitHubAPIURI :: string
  Created :: string
  Pushed :: string
  Fork :: string
  Forks :: int
  InName :: bool
  InDescription :: bool
  InReadme :: bool
  Language :: string
  License :: string
  Org :: string
  Username :: string
  Size :: int
  Stars :: int
  Topic :: string
  Archived :: bool
  Sort :: string
  Order :: string
  Keyword :: string

section \<open>strconv.Itoa\<close>

definition digit_char :: "nat \<Rightarrow> char" where
  "digit_char d = ''0123456789'' ! d"

function utoa :: "nat \<Rightarrow> string" where
  "utoa n = (if n < 10 then [digit_char n] else utoa (n div 10) @ [digit_char (n mod 10)])"
  by pat_completeness auto
termination
  by (relation "measure (\<lambda>n. n)") auto

declare utoa.simps [simp del]

text \<open>Decimal rendering of a signed integer: a minus sign and the magnitude.\<close>

definition Itoa :: "int \<Rightarrow> string" where
  "Itoa i = (if i < 0 then ''-'' @ utoa (nat (- i)) else utoa (nat i))"

section \<open>The query builder\<close>

text \<open>
  \<^verbatim>\<open>vals\<close> is a Go \<^verbatim>\<open>map[string]string\<close>. It is modelled as an association list with
  at most one entry per key: \<open>AList.update\<close> is the assignment \<^verbatim>\<open>vals[k] = v\<close>,
  \<open>map_of\<close> the lookup and \<open>length\<close> is \<^verbatim>\<open>len(vals)\<close>. The position of an entry in
  the list has no meaning: the loop over the map is modelled separately below.

  \<open>put_if c k v\<close> is the statement \<^verbatim>\<open>if c { vals[k] = v }\<close>.
\<close>

type_synonym vals = "(string \<times> string) list"

definition put_if :: "bool \<Rightarrow> string \<Rightarrow> string \<Rightarrow> vals \<Rightarrow> vals" where
  "put_if c k v m = (if c then AList.update k v m else m)"

text \<open>
  \<open>in_add c name\<close> is the statement
  \<^verbatim>\<open>if c { if _, ok := vals["in"]; ok { vals["in"] += "," + name } else { vals["in"] = name } }\<close>.
\<close>

definition in_add :: "bool \<Rightarrow> string \<Rightarrow> vals \<Rightarrow> vals" where
  "in_add c name m =
     (if c then
        (case map_of m ''in'' of
           Some cur \<Rightarrow> AList.update ''in'' (cur @ '','' @ name) m
         | None \<Rightarrow> AList.update ''in'' name m)
      else m)"

text \<open>The fifteen conditional assignments of \<^verbatim>\<open>queryString\<close>, in the order of the source.\<close>

definition vals :: "options \<Rightarrow> vals" where
  "vals opts = fold (\<lambda>step m. step m)
     [ put_if (Created opts \<noteq> []) ''created'' (Created opts),
       put_if (Pushed opts \<noteq> []) ''pushed'' (Pushed opts),
       put_if (Fork opts \<noteq> []) ''fork'' (Fork opts),
       put_if (Forks opts \<ge> 0) ''forks'' (Itoa (Forks opts)),
       put_if (InName opts) ''in'' ''name'',
       in_add (InDescription opts) ''description'',
       in_add (InReadme opts) ''readme'',
       put_if (Language opts \<noteq> []) ''language'' (Language opts),
       put_if (License opts \<noteq> []) ''license'' (License opts),
       put_if (Org opts \<noteq> []) ''org'' (Org opts),
       put_if (Username opts \<noteq> []) ''user'' (Username opts),
       put_if (Size opts > 0) ''size'' (Itoa (Size opts)),
       put_if (Stars opts > 0) ''stars'' (Itoa (Stars opts)),
       put_if (Topic opts \<noteq> []) ''topic'' (Topic opts),
       put_if (Archived opts) ''archived'' ''true'' ]
     []"

text \<open>
  Go visits the entries of a map in an unspecified order, each entry once. An iteration
  order of the map \<open>m\<close> is therefore any list with the same entries as \<open>m\<close>.
\<close>

definition range_order :: "vals \<Rightarrow> (string \<times> string) list \<Rightarrow> bool" where
  "range_order m kvs = (mset kvs = mset m)"

text \<open>
  The loop \<^verbatim>\<open>for k, v := range vals\<close>, over the entries in the order they are visited; the
  state is the flag \<^verbatim>\<open>isFirst\<close> and the buffer.
\<close>

fun write_terms :: "(string \<times> string) list \<Rightarrow> bool \<times> string \<Rightarrow> bool \<times> string" where
  "write_terms [] st = st"
| "write_terms ((k, v) # kvs) (isFirst, buf) =
     write_terms kvs (False, (if \<not> isFirst then buf @ ''+'' else buf) @ (k @ '':'' @ v))"

text \<open>
  \<^verbatim>\<open>queryString\<close>, given the order \<open>kvs\<close> in which the loop visits the entries of
  \<^verbatim>\<open>vals\<close>. The buffer is the string written so far.
\<close>

definition queryString_with :: "(string \<times> string) list \<Rightarrow> options \<Rightarrow> string" where
  "queryString_with kvs opts =
     (let buf1 = (if Keyword opts \<noteq> [] \<or> length (vals opts) \<noteq> 0 then ''q='' else []);
          st2 = (if Keyword opts \<noteq> [] then (False, buf1 @ Keyword opts) else (True, buf1));
          buf3 = snd (write_terms kvs st2)
      in if Sort opts \<noteq> [] then
           (let buf4 = (if length buf3 \<noteq> 0 then buf3 @ ''&'' else buf3);
                buf5 = buf4 @ (''sort='' @ Sort opts)
            in if Order opts \<noteq> [] then buf5 @ (''&order='' @ Order opts) else buf5)
         else buf3)"

section \<open>The run\<close>

text \<open>One element of \<^verbatim>\<open>response.Items\<close>.\<close>

record item =
  item_License :: string
  item_Language :: string
  item_FullName :: string
  item_Description :: string

fun shortenLanguage :: "string \<Rightarrow> string" where
  "shortenLanguage lang =
     (if lang = ''Emacs Lisp'' then ''elisp''
      else if lang = ''JavaScript'' then ''JS''
      else if lang = ''CoffeeScript'' then ''Coffee''
      else lang)"

text \<open>
  The libraries \<^verbatim>\<open>exec\<close> calls are its environment: what \<^verbatim>\<open>flags.Parse\<close> made of the
  command line (the options, a request for help, or another error, each error with its
  text), what \<^verbatim>\<open>http.Get\<close> answers for a URI (an error text or a response body), what the
  JSON decoder makes of a body (an error text or the items), the order in which Go visits
  the entries of a map, and the layout the tabwriter gives, at \<^verbatim>\<open>Flush\<close>, to the text
  written to it.
\<close>

datatype parse_error = ErrHelp string | ErrOther string

record env =
  flags_Parse :: "parse_error + options"
  http_Get :: "string \<Rightarrow> string + string"
  json_Decode :: "string \<Rightarrow> string + item list"
  map_range :: "vals \<Rightarrow> (string \<times> string) list"
  tabwriter_Flush :: "string \<Rightarrow> string"

text \<open>
  The effects of \<^verbatim>\<open>exec\<close> itself: the text it writes to standard output and to standard
  error, and the number of response bodies it holds open (\<^verbatim>\<open>http.Get\<close> hands over an
  open body; only \<^verbatim>\<open>Body.Close\<close> would release it).
\<close>

record world =
  stdout :: string
  stderr :: string
  open_bodies :: nat

definition tab :: string where
  "tab = [CHR 0x09]"

definition newline :: string where
  "newline = [CHR 0x0A]"

definition printErr :: "string \<Rightarrow> string \<Rightarrow> world \<Rightarrow> world" where
  "printErr msg err w = w\<lparr>stderr := stderr w @ (msg @ '': '' @ err @ newline)\<rparr>"

text \<open>The body of the loop over the items; the state is the text written to the tabwriter.\<close>

definition write_item :: "options \<Rightarrow> item \<Rightarrow> string \<Rightarrow> string" where
  "write_item opts it buf =
     (let buf1 = (if Language opts = []
                  then buf @ (''['' @ shortenLanguage (item_Language it) @ '']'' @ tab)
                  else buf)
      in buf1 @ ((item_FullName it @ tab @ item_Description it) @ newline))"

definition request_uri :: "env \<Rightarrow> options \<Rightarrow> string" where
  "request_uri e opts =
     GitHubAPIURI opts @ ''/repositories?'' @ queryString_with (map_range e (vals opts)) opts"

definition exec :: "env \<Rightarrow> world \<Rightarrow> int \<times> world" where
  "exec e w =
     (case flags_Parse e of
        Inl (ErrHelp err) \<Rightarrow> (0, w)
      | Inl (ErrOther err) \<Rightarrow> (1, printErr ''error in parsing options'' err w)
      | Inr opts \<Rightarrow>
          (case http_Get e (request_uri e opts) of
             Inl err \<Rightarrow> (1, printErr ''error in requesting'' err w)
           | Inr body \<Rightarrow>
               (let w1 = w\<lparr>open_bodies := open_bodies w + 1\<rparr> in
                case json_Decode e body of
                  Inl err \<Rightarrow> (1, printErr ''error in parsing reponse'' err w1)
                | Inr items \<Rightarrow>
                    (let buf = fold (write_item opts) items []
                     in (0, w1\<lparr>stdout := stdout w1 @ tabwriter_Flush e buf\<rparr>)))))"

section \<open>Notions of the specification\<close>

text \<open>A list of strings joined by a separator.\<close>

fun join :: "string \<Rightarrow> string list \<Rightarrow> string" where
  "join sep [] = []"
| "join sep [x] = x"
| "join sep (x # y # ys) = x @ sep @ join sep (y # ys)"

text \<open>The filter term of an entry: \<open>key:value\<close>.\<close>

definition filter_term :: "string \<times> string \<Rightarrow> string" where
  "filter_term kv = fst kv @ '':'' @ snd kv"

text \<open>
  At least one filter is meaningful: a string filter is not empty, a flag is set, forks is
  not negative, size or stars is positive.
\<close>

definition any_meaningful :: "options \<Rightarrow> bool" where
  "any_meaningful opts =
     (Created opts \<noteq> [] \<or> Pushed opts \<noteq> [] \<or> Fork opts \<noteq> [] \<or> Forks opts \<ge> 0 \<or>
      InName opts \<or> InDescription opts \<or> InReadme opts \<or>
      Language opts \<noteq> [] \<or> License opts \<noteq> [] \<or> Org opts \<noteq> [] \<or> Username opts \<noteq> [] \<or>
      Size opts > 0 \<or> Stars opts > 0 \<or> Topic opts \<noteq> [] \<or> Archived opts)"

text \<open>The location sub-flags that are set, in the order name, description, readme.\<close>

definition in_names :: "options \<Rightarrow> string list" where
  "in_names opts =
     (if InName opts then [''name''] else []) @
     (if InDescription opts then [''description''] else []) @
     (if InReadme opts then [''readme''] else [])"

definition in_value :: "options \<Rightarrow> string" where
  "in_value opts = join '','' (in_names opts)"

text \<open>The sort segment, with the \<open>&\<close> that follows a query segment.\<close>

definition sort_suffix :: "options \<Rightarrow> string" where
  "sort_suffix opts =
     (if Sort opts = [] then []
      else ''&sort='' @ Sort opts @ (if Order opts = [] then [] else ''&order='' @ Order opts))"

text \<open>The row of an item, as the specification words it.\<close>

definition row :: "options \<Rightarrow> item \<Rightarrow> string" where
  "row opts it =
     (if Language opts = [] then ''['' @ shortenLanguage (item_Language it) @ '']'' @ tab else []) @
     item_FullName it @ tab @ item_Description it @ newline"

text \<open>
  The options after parsing an empty command line: every field at its zero value, but
  for the two fields with a declared default.
\<close>

definition default_options :: options where
  "default_options =
     \<lparr> GitHubAPIURI = ''https://api.github.com/search'', Created = [], Pushed = [], Fork = [],
       Forks = - 1, InName = False, InDescription = False, InReadme = False, Language = [],
       License = [], Org = [], Username = [], Size = 0, Stars = 0, Topic = [],
       Archived = False, Sort = [], Order = [], Keyword = [] \<rparr>"

text \<open>A run in which the request and the decoding succeed, with the given items.\<close>

definition env_ok :: "options \<Rightarrow> item list \<Rightarrow> env" where
  "env_ok opts items =
     \<lparr> flags_Parse = Inr opts, http_Get = (\<lambda>uri. Inr ''body''),
       json_Decode = (\<lambda>body. Inr items), map_range = (\<lambda>m. m),
       tabwriter_Flush = (\<lambda>buf. buf) \<rparr>"

definition world0 :: world where
  "world0 = \<lparr> stdout = [], stderr = [], open_bodies = 0 \<rparr>"

text \<open>
  The terms of the query segment: the keyword, when there is one, and then the term of each
  entry in the order of the visit.
\<close>

definition q_terms :: "(string \<times> string) list \<Rightarrow> options \<Rightarrow> string list" where
  "q_terms kvs opts = (if Keyword opts \<noteq> [] then [Keyword opts] else []) @ map filter_term kvs"

text \<open>The sort parameters: \<open>sort=\<close>, and \<open>order=\<close> only after it.\<close>

definition sort_params :: "options \<Rightarrow> string list" where
  "sort_params opts =
     (if Sort opts = [] then []
      else (''sort='' @ Sort opts) # (if Order opts = [] then [] else [''order='' @ Order opts]))"

text \<open>
  The parameters of the query string: the \<open>q=\<close> parameter, whose value is the terms joined
  by \<open>+\<close>, when there is a term, and the sort parameters.
\<close>

definition params :: "(string \<times> string) list \<Rightarrow> options \<Rightarrow> string list" where
  "params kvs opts =
     (if q_terms kvs opts = [] then [] else [''q='' @ join ''+'' (q_terms kvs opts)]) @
     sort_params opts"

text \<open>Items, and runs that fail, for the examples.\<close>

definition item1 :: item where
  "item1 = \<lparr> item_License = [], item_Language = ''JavaScript'', item_FullName = ''a/b'',
             item_Description = ''d'' \<rparr>"

definition item2 :: item where
  "item2 = \<lparr> item_License = [], item_Language = [], item_FullName = ''c/d'',
             item_Description = [] \<rparr>"

definition env_help :: env where
  "env_help = (env_ok default_options [])\<lparr>flags_Parse := Inl (ErrHelp ''Usage'')\<rparr>"

definition env_parse_fails :: env where
  "env_parse_fails = (env_ok default_options [])\<lparr>flags_Parse := Inl (ErrOther ''unknown flag'')\<rparr>"

definition env_get_fails :: env where
  "env_get_fails = (env_ok default_options [])\<lparr>http_Get := (\<lambda>uri. Inl ''no route'')\<rparr>"

definition env_decode_fails :: env where
  "env_decode_fails = (env_ok default_options [])\<lparr>json_Decode := (\<lambda>body. Inl ''invalid character'')\<rparr>"

section \<open>Properties of the map of filters\<close>

lemma map_of_put_if: "map_of (put_if c k v m) k' = (if c \<and> k' = k then Some v else map_of m k')"
  by (simp add: put_if_def update_conv')

lemma map_of_in_add:
  "map_of (in_add c name m) k' =
     (if c \<and> k' = ''in''
      then Some (case map_of m ''in'' of Some cur \<Rightarrow> cur @ '','' @ name | None \<Rightarrow> name)
      else map_of m k')"
  by (simp add: in_add_def update_conv' split: option.splits)

lemma distinct_put_if: "distinct (map fst m) \<Longrightarrow> distinct (map fst (put_if c k v m))"
  by (simp add: put_if_def distinct_update)

lemma distinct_in_add: "distinct (map fst m) \<Longrightarrow> distinct (map fst (in_add c name m))"
  by (simp add: in_add_def distinct_update split: option.splits)

lemma distinct_vals: "distinct (map fst (vals opts))"
  by (simp add: vals_def distinct_put_if distinct_in_add)

lemma put_if_Nil: "put_if c k v m = [] \<longleftrightarrow> \<not> c \<and> m = []"
  by (simp add: put_if_def)

lemma in_add_Nil: "in_add c name m = [] \<longleftrightarrow> \<not> c \<and> m = []"
  by (simp add: in_add_def split: option.splits)

lemma vals_Nil: "vals opts = [] \<longleftrightarrow> \<not> any_meaningful opts"
  unfolding vals_def any_meaningful_def
  by (simp only: fold_simps put_if_Nil in_add_Nil) blast

lemma vals_in:
  "map_of (vals opts) ''in'' =
     (if InName opts \<or> InDescription opts \<or> InReadme opts then Some (in_value opts) else None)"
  by (simp add: vals_def map_of_put_if map_of_in_add in_value_def in_names_def)

lemma vals_forks:
  "map_of (vals opts) ''forks'' = (if Forks opts \<ge> 0 then Some (Itoa (Forks opts)) else None)"
  by (simp add: vals_def map_of_put_if map_of_in_add)

lemma vals_size:
  "map_of (vals opts) ''size'' = (if Size opts > 0 then Some (Itoa (Size opts)) else None)"
  by (simp add: vals_def map_of_put_if map_of_in_add)

lemma vals_stars:
  "map_of (vals opts) ''stars'' = (if Stars opts > 0 then Some (Itoa (Stars opts)) else None)"
  by (simp add: vals_def map_of_put_if map_of_in_add)

section \<open>Properties of an iteration order\<close>

lemma range_order_Nil: "range_order m kvs \<Longrightarrow> kvs = [] \<longleftrightarrow> m = []"
  by (auto simp: range_order_def)

lemma range_order_set: "range_order m kvs \<Longrightarrow> set kvs = set m"
  unfolding range_order_def by (rule mset_eq_setD)

lemma range_order_distinct:
  assumes "range_order m kvs" and "distinct (map fst m)"
  shows "distinct (map fst kvs)"
proof -
  from assms(1) have "mset (map fst kvs) = mset (map fst m)"
    by (simp add: range_order_def)
  from mset_eq_imp_distinct_iff [OF this] assms(2) show ?thesis by simp
qed

lemma range_order_map_of:
  assumes "range_order m kvs" and "distinct (map fst m)"
  shows "map_of kvs = map_of m"
proof -
  have "distinct (map fst kvs)" by (rule range_order_distinct [OF assms])
  moreover have "set kvs = set m" by (rule range_order_set [OF assms(1)])
  ultimately show ?thesis using assms(2) by (simp add: map_of_inject_set)
qed

lemma filter_key:
  "distinct (map fst kvs) \<Longrightarrow>
   filter (\<lambda>kv. fst kv = a) kvs = (case map_of kvs a of None \<Rightarrow> [] | Some v \<Rightarrow> [(a, v)])"
proof (induction kvs)
  case Nil
  then show ?case by simp
next
  case (Cons kv kvs)
  show ?case
  proof (cases "fst kv = a")
    case True
    with Cons.prems have "a \<notin> fst ` set kvs" by auto
    then have "filter (\<lambda>kv. fst kv = a) kvs = []" by (auto simp: filter_empty_conv)
    with True show ?thesis by (cases kv) simp
  next
    case False
    with Cons show ?thesis by (cases kv) auto
  qed
qed

lemma visited_key:
  assumes "range_order (vals opts) kvs"
  shows "filter (\<lambda>kv. fst kv = a) kvs =
           (case map_of (vals opts) a of None \<Rightarrow> [] | Some v \<Rightarrow> [(a, v)])"
proof -
  have "distinct (map fst kvs)"
    by (rule range_order_distinct [OF assms distinct_vals])
  then show ?thesis
    by (simp add: filter_key range_order_map_of [OF assms distinct_vals])
qed

section \<open>The loop and the shape of the query\<close>

lemma write_terms_False:
  "snd (write_terms kvs (False, buf)) = buf @ concat (map (\<lambda>kv. ''+'' @ filter_term kv) kvs)"
  by (induction kvs arbitrary: buf) (auto simp: filter_term_def)

lemma join_Cons: "join sep (t # ts) = t @ concat (map (\<lambda>t. sep @ t) ts)"
  by (induction ts arbitrary: t) auto

lemma write_terms_True:
  "snd (write_terms kvs (True, buf)) = buf @ join ''+'' (map filter_term kvs)"
proof (cases kvs)
  case Nil
  then show ?thesis by simp
next
  case (Cons kv rest)
  then show ?thesis
    by (cases kv) (simp add: write_terms_False join_Cons filter_term_def comp_def)
qed


lemma vals_eval_simps:
  "put_if True k v m = AList.update k v m"
  "put_if False k v m = m"
  "in_add False name m = m"
  by (simp_all add: put_if_def in_add_def)

lemma q_buffer:
  assumes "range_order (vals opts) kvs"
  shows "snd (write_terms kvs
           (if Keyword opts \<noteq> []
            then (False, (if Keyword opts \<noteq> [] \<or> length (vals opts) \<noteq> 0 then ''q='' else []) @
                         Keyword opts)
            else (True, (if Keyword opts \<noteq> [] \<or> length (vals opts) \<noteq> 0 then ''q='' else [])))) =
         (if q_terms kvs opts = [] then [] else ''q='' @ join ''+'' (q_terms kvs opts))"
proof (cases "Keyword opts = []")
  case True
  from range_order_Nil [OF assms] have "vals opts = [] \<longleftrightarrow> kvs = []" by simp
  with True show ?thesis
    by (cases "kvs = []") (simp_all add: write_terms_True q_terms_def)
next
  case False
  then show ?thesis
    by (simp add: write_terms_False q_terms_def join_Cons comp_def)
qed

lemma queryString_structure:
  assumes "range_order (vals opts) kvs"
  shows "queryString_with kvs opts = join ''&'' (params kvs opts)"
  unfolding queryString_with_def Let_def q_buffer [OF assms]
  by (simp add: params_def sort_params_def)

lemma sublist_trans: "sublist xs ys \<Longrightarrow> sublist ys zs \<Longrightarrow> sublist xs zs"
  by (rule sublist_order.order.trans)

lemma sublist_join: "t \<in> set ts \<Longrightarrow> sublist t (join sep ts)"
proof (induction sep ts rule: join.induct)
  case (1 sep)
  then show ?case by simp
next
  case (2 sep x)
  then show ?case by simp
next
  case (3 sep x y ys)
  show ?case
  proof (cases "t = x")
    case True
    then show ?thesis by (simp add: sublist_appendI)
  next
    case False
    with 3 have "sublist t (join sep (y # ys))" by simp
    then have "sublist t ((x @ sep) @ join sep (y # ys))" by (rule sublist_trans) (rule sublist_append_leftI)
    then show ?thesis by simp
  qed
qed

lemma sublist_query:
  assumes "range_order (vals opts) kvs" and "kv \<in> set kvs"
  shows "sublist (filter_term kv) (queryString_with kvs opts)"
proof -
  let ?ts = "q_terms kvs opts"
  from assms(2) have t: "filter_term kv \<in> set ?ts" by (simp add: q_terms_def)
  then have ne: "?ts \<noteq> []" by auto
  from t have "sublist (filter_term kv) (join ''+'' ?ts)" by (rule sublist_join)
  then have "sublist (filter_term kv) (''q='' @ join ''+'' ?ts)"
    by (rule sublist_trans) (rule sublist_append_leftI)
  moreover have "''q='' @ join ''+'' ?ts \<in> set (params kvs opts)"
    using ne by (simp add: params_def)
  then have "sublist (''q='' @ join ''+'' ?ts) (join ''&'' (params kvs opts))" by (rule sublist_join)
  ultimately show ?thesis
    unfolding queryString_structure [OF assms(1)] by (rule sublist_trans)
qed

lemma visited_entry:
  assumes "range_order (vals opts) kvs" and "map_of (vals opts) k = Some v"
  shows "(k, v) \<in> set kvs"
proof -
  from assms(2) have "(k, v) \<in> set (vals opts)" by (rule map_of_SomeD)
  then show ?thesis by (simp add: range_order_set [OF assms(1)])
qed

section \<open>The integer filters\<close>

text \<open>
  C4. The query is its parameters joined by \<open>&\<close>; the value of the \<open>q=\<close> parameter is the
  keyword, if any, and one term \<open>key:value\<close> for each entry the loop visits, joined by \<open>+\<close>.
  Whatever the order of the visit, the entries with key \<open>size\<close> are: one, holding the
  decimal value, when Size is positive, and none otherwise (so none at 0); the same for
  \<open>stars\<close>; and for \<open>forks\<close> there is one when Forks is not negative (so also at 0), and
  none when it is negative. When there is such an entry, its term is a substring of the
  query.
\<close>

theorem integer_filter_terms:
  assumes "range_order (vals opts) kvs"
  shows "queryString_with kvs opts = join ''&'' (params kvs opts) \<and>
         filter (\<lambda>kv. fst kv = ''size'') kvs =
           (if Size opts > 0 then [(''size'', Itoa (Size opts))] else []) \<and>
         filter (\<lambda>kv. fst kv = ''stars'') kvs =
           (if Stars opts > 0 then [(''stars'', Itoa (Stars opts))] else []) \<and>
         filter (\<lambda>kv. fst kv = ''forks'') kvs =
           (if Forks opts \<ge> 0 then [(''forks'', Itoa (Forks opts))] else []) \<and>
         (Size opts > 0 \<longrightarrow> sublist (''size:'' @ Itoa (Size opts)) (queryString_with kvs opts)) \<and>
         (Stars opts > 0 \<longrightarrow> sublist (''stars:'' @ Itoa (Stars opts)) (queryString_with kvs opts)) \<and>
         (Forks opts \<ge> 0 \<longrightarrow> sublist (''forks:'' @ Itoa (Forks opts)) (queryString_with kvs opts))"
proof -
  have "sublist (''size:'' @ Itoa (Size opts)) (queryString_with kvs opts)" if "Size opts > 0"
  proof -
    from that have "(''size'', Itoa (Size opts)) \<in> set kvs"
      by (intro visited_entry [OF assms]) (simp add: vals_size)
    from sublist_query [OF assms this] show ?thesis by (simp add: filter_term_def)
  qed
  moreover have "sublist (''stars:'' @ Itoa (Stars opts)) (queryString_with kvs opts)" if "Stars opts > 0"
  proof -
    from that have "(''stars'', Itoa (Stars opts)) \<in> set kvs"
      by (intro visited_entry [OF assms]) (simp add: vals_stars)
    from sublist_query [OF assms this] show ?thesis by (simp add: filter_term_def)
  qed
  moreover have "sublist (''forks:'' @ Itoa (Forks opts)) (queryString_with kvs opts)" if "Forks opts \<ge> 0"
  proof -
    from that have "(''forks'', Itoa (Forks opts)) \<in> set kvs"
      by (intro visited_entry [OF assms]) (simp add: vals_forks)
    from sublist_query [OF assms this] show ?thesis by (simp add: filter_term_def)
  qed
  ultimately show ?thesis
    by (simp add: queryString_structure [OF assms] visited_key [OF assms] vals_size vals_stars vals_forks)
qed

lemma Itoa_examples: "Itoa 0 = ''0''" "Itoa 5 = ''5''" "Itoa 12 = ''12''"
  by (simp_all add: Itoa_def utoa.simps digit_char_def)

text \<open>
  With forks, size and stars all 0 the query is \<open>q=forks:0\<close>: only forks has a term. With
  size 5, stars 12 and forks negative, and the loop visiting stars first, the query is
  \<open>q=stars:12+size:5\<close>.
\<close>

theorem integer_filter_terms_witness:
  "(range_order (vals (default_options\<lparr>Forks := 0\<rparr>)) [(''forks'', ''0'')] \<and>
    queryString_with [(''forks'', ''0'')] (default_options\<lparr>Forks := 0\<rparr>) = ''q=forks:0'' \<and>
    filter (\<lambda>kv. fst kv = ''size'') [(''forks'', ''0'')] = [] \<and>
    filter (\<lambda>kv. fst kv = ''stars'') [(''forks'', ''0'')] = [] \<and>
    filter (\<lambda>kv. fst kv = ''forks'') [(''forks'', ''0'')] = [(''forks'', ''0'')] \<and>
    sublist ''forks:0'' (queryString_with [(''forks'', ''0'')] (default_options\<lparr>Forks := 0\<rparr>))) \<and>
   (range_order (vals (default_options\<lparr>Size := 5, Stars := 12\<rparr>))
      [(''stars'', ''12''), (''size'', ''5'')] \<and>
    queryString_with [(''stars'', ''12''), (''size'', ''5'')]
      (default_options\<lparr>Size := 5, Stars := 12\<rparr>) = ''q=stars:12+size:5'' \<and>
    filter (\<lambda>kv. fst kv = ''size'') [(''stars'', ''12''), (''size'', ''5'')] = [(''size'', ''5'')] \<and>
    filter (\<lambda>kv. fst kv = ''stars'') [(''stars'', ''12''), (''size'', ''5'')] = [(''stars'', ''12'')] \<and>
    filter (\<lambda>kv. fst kv = ''forks'') [(''stars'', ''12''), (''size'', ''5'')] = [] \<and>
    sublist ''size:5'' (queryString_with [(''stars'', ''12''), (''size'', ''5'')] (default_options\<lparr>Size := 5, Stars := 12\<rparr>)) \<and>
    sublist ''stars:12'' (queryString_with [(''stars'', ''12''), (''size'', ''5'')] (default_options\<lparr>Size := 5, Stars := 12\<rparr>)))"
proof -
  let ?a = "default_options\<lparr>Forks := 0\<rparr>"
  let ?b = "default_options\<lparr>Size := 5, Stars := 12\<rparr>"
  have va: "vals ?a = [(''forks'', ''0'')]"
    by (simp add: vals_def vals_eval_simps default_options_def Itoa_examples)
  then have ra: "range_order (vals ?a) [(''forks'', ''0'')]"
    by (simp add: range_order_def)
  have vb: "vals ?b = [(''size'', ''5''), (''stars'', ''12'')]"
    by (simp add: vals_def vals_eval_simps default_options_def Itoa_examples)
  then have rb: "range_order (vals ?b) [(''stars'', ''12''), (''size'', ''5'')]"
    by (simp add: range_order_def)
  have fa: "Forks ?a = 0" "Size ?a = 0" "Stars ?a = 0" "Keyword ?a = []" "Sort ?a = []"
    by (simp_all add: default_options_def)
  have fb: "Forks ?b = - 1" "Size ?b = 5" "Stars ?b = 12" "Keyword ?b = []" "Sort ?b = []"
    by (simp_all add: default_options_def)
  have pa: "join ''&'' (params [(''forks'', ''0'')] ?a) = ''q=forks:0''"
    by (simp add: params_def q_terms_def sort_params_def filter_term_def fa)
  have pb: "join ''&'' (params [(''stars'', ''12''), (''size'', ''5'')] ?b) = ''q=stars:12+size:5''"
    by (simp add: params_def q_terms_def sort_params_def filter_term_def fb)
  from integer_filter_terms [OF ra] have a: "queryString_with [(''forks'', ''0'')] ?a = ''q=forks:0'' \<and>
    filter (\<lambda>kv. fst kv = ''size'') [(''forks'', ''0'')] = [] \<and>
    filter (\<lambda>kv. fst kv = ''stars'') [(''forks'', ''0'')] = [] \<and>
    filter (\<lambda>kv. fst kv = ''forks'') [(''forks'', ''0'')] = [(''forks'', ''0'')] \<and>
    sublist ''forks:0'' (queryString_with [(''forks'', ''0'')] (default_options\<lparr>Forks := 0\<rparr>))"
    by (clarsimp simp: fa pa Itoa_examples)
  from integer_filter_terms [OF rb] have b: "queryString_with [(''stars'', ''12''), (''size'', ''5'')] ?b = ''q=stars:12+size:5'' \<and>
    filter (\<lambda>kv. fst kv = ''size'') [(''stars'', ''12''), (''size'', ''5'')] = [(''size'', ''5'')] \<and>
    filter (\<lambda>kv. fst kv = ''stars'') [(''stars'', ''12''), (''size'', ''5'')] = [(''stars'', ''12'')] \<and>
    filter (\<lambda>kv. fst kv = ''forks'') [(''stars'', ''12''), (''size'', ''5'')] = [] \<and>
    sublist ''size:5'' (queryString_with [(''stars'', ''12''), (''size'', ''5'')] (default_options\<lparr>Size := 5, Stars := 12\<rparr>)) \<and>
    sublist ''stars:12'' (queryString_with [(''stars'', ''12''), (''size'', ''5'')] (default_options\<lparr>Size := 5, Stars := 12\<rparr>))"
    by (clarsimp simp: fb pb Itoa_examples)
  from ra rb a b show ?thesis by blast
qed

section \<open>Properties of the run\<close>

lemma fold_write_item:
  "fold (write_item opts) items buf = buf @ concat (map (row opts) items)"
  by (induction items arbitrary: buf) (simp_all add: write_item_def row_def Let_def)

lemma exec_success:
  assumes "flags_Parse e = Inr opts"
    and "http_Get e (request_uri e opts) = Inr body"
    and "json_Decode e body = Inr items"
  shows "exec e w =
           (0, w\<lparr>open_bodies := open_bodies w + 1,
                 stdout := stdout w @ tabwriter_Flush e (fold (write_item opts) items [])\<rparr>)"
  using assms by (simp add: exec_def Let_def)

lemma exec_help:
  assumes "flags_Parse e = Inl (ErrHelp err)"
  shows "exec e w = (0, w)"
  using assms by (simp add: exec_def)

lemma exec_parse_fails:
  assumes "flags_Parse e = Inl (ErrOther err)"
  shows "exec e w = (1, w\<lparr>stderr := stderr w @ (''error in parsing options: '' @ err @ newline)\<rparr>)"
  using assms by (simp add: exec_def printErr_def)

lemma exec_get_fails:
  assumes "flags_Parse e = Inr opts" and "http_Get e (request_uri e opts) = Inl err"
  shows "exec e w = (1, w\<lparr>stderr := stderr w @ (''error in requesting: '' @ err @ newline)\<rparr>)"
  using assms by (simp add: exec_def printErr_def)

lemma exec_decode_fails:
  assumes "flags_Parse e = Inr opts" and "http_Get e (request_uri e opts) = Inr body"
    and "json_Decode e body = Inl err"
  shows "exec e w =
           (1, w\<lparr>open_bodies := open_bodies w + 1,
                 stderr := stderr w @ (''error in parsing reponse: '' @ err @ newline)\<rparr>)"
  using assms by (simp add: exec_def printErr_def Let_def)

lemma env_ok_simps:
  "flags_Parse (env_ok opts items) = Inr opts"
  "http_Get (env_ok opts items) uri = Inr ''body''"
  "json_Decode (env_ok opts items) body = Inr items"
  "tabwriter_Flush (env_ok opts items) buf = buf"
  by (simp_all add: env_ok_def)

lemma env_fails_simps:
  "flags_Parse env_help = Inl (ErrHelp ''Usage'')"
  "flags_Parse env_parse_fails = Inl (ErrOther ''unknown flag'')"
  "flags_Parse env_get_fails = Inr default_options"
  "http_Get env_get_fails uri = Inl ''no route''"
  "flags_Parse env_decode_fails = Inr default_options"
  "http_Get env_decode_fails uri = Inr ''body''"
  "json_Decode env_decode_fails body = Inl ''invalid character''"
  by (simp_all add: env_help_def env_parse_fails_def env_get_fails_def env_decode_fails_def env_ok_def)

lemma world0_simps: "stdout world0 = []" "stderr world0 = []" "open_bodies world0 = 0"
  by (simp_all add: world0_def)

section \<open>The exit status\<close>

text \<open>
  C7. The writes are those of \<^verbatim>\<open>exec\<close> itself. When the options are parsed, the request is
  answered and the body is decoded, the status is 0 and nothing is written to standard
  error; with no item, what is flushed to standard output is the layout of the empty text.
  When the parser reports an error other than a request for help, when the request fails,
  and when the decoding fails, the status is 1, standard output is left as it was, and
  standard error receives one line: the message of the case, a colon, the text of the
  error. A request for help ends the run with status 0 and no write.
\<close>

theorem exit_status:
  "(\<forall>opts body items.
      flags_Parse e = Inr opts \<and> http_Get e (request_uri e opts) = Inr body \<and>
      json_Decode e body = Inr items \<longrightarrow>
      fst (exec e w) = 0 \<and> stderr (snd (exec e w)) = stderr w \<and>
      stdout (snd (exec e w)) = stdout w @ tabwriter_Flush e (fold (write_item opts) items []) \<and>
      (items = [] \<longrightarrow> stdout (snd (exec e w)) = stdout w @ tabwriter_Flush e [])) \<and>
   (\<forall>err. flags_Parse e = Inl (ErrOther err) \<longrightarrow>
      fst (exec e w) = 1 \<and> stdout (snd (exec e w)) = stdout w \<and>
      stderr (snd (exec e w)) = stderr w @ ''error in parsing options: '' @ err @ newline) \<and>
   (\<forall>opts err. flags_Parse e = Inr opts \<and> http_Get e (request_uri e opts) = Inl err \<longrightarrow>
      fst (exec e w) = 1 \<and> stdout (snd (exec e w)) = stdout w \<and>
      stderr (snd (exec e w)) = stderr w @ ''error in requesting: '' @ err @ newline) \<and>
   (\<forall>opts body err.
      flags_Parse e = Inr opts \<and> http_Get e (request_uri e opts) = Inr body \<and>
      json_Decode e body = Inl err \<longrightarrow>
      fst (exec e w) = 1 \<and> stdout (snd (exec e w)) = stdout w \<and>
      stderr (snd (exec e w)) = stderr w @ ''error in parsing reponse: '' @ err @ newline) \<and>
   (\<forall>err. flags_Parse e = Inl (ErrHelp err) \<longrightarrow> exec e w = (0, w))"
proof (intro conjI allI impI)
  fix opts body items
  assume a: "flags_Parse e = Inr opts \<and> http_Get e (request_uri e opts) = Inr body \<and>
      json_Decode e body = Inr items"
  then have p: "flags_Parse e = Inr opts" and h: "http_Get e (request_uri e opts) = Inr body"
    and d: "json_Decode e body = Inr items" by simp_all
  note x = exec_success [OF p h d, of w]
  show "fst (exec e w) = 0" by (simp add: x)
  show "stderr (snd (exec e w)) = stderr w" by (simp add: x)
  show "stdout (snd (exec e w)) = stdout w @ tabwriter_Flush e (fold (write_item opts) items [])"
    by (simp add: x)
  show "stdout (snd (exec e w)) = stdout w @ tabwriter_Flush e []" if "items = []"
    using that by (simp add: x)
next
  fix err
  assume "flags_Parse e = Inl (ErrOther err)"
  note x = exec_parse_fails [OF this, of w]
  show "fst (exec e w) = 1" by (simp add: x)
  show "stdout (snd (exec e w)) = stdout w" by (simp add: x)
  show "stderr (snd (exec e w)) = stderr w @ ''error in parsing options: '' @ err @ newline"
    by (simp add: x)
next
  fix opts err
  assume "flags_Parse e = Inr opts \<and> http_Get e (request_uri e opts) = Inl err"
  then have p: "flags_Parse e = Inr opts" and h: "http_Get e (request_uri e opts) = Inl err"
    by simp_all
  note x = exec_get_fails [OF p h, of w]
  show "fst (exec e w) = 1" by (simp add: x)
  show "stdout (snd (exec e w)) = stdout w" by (simp add: x)
  show "stderr (snd (exec e w)) = stderr w @ ''error in requesting: '' @ err @ newline"
    by (simp add: x)
next
  fix opts body err
  assume "flags_Parse e = Inr opts \<and> http_Get e (request_uri e opts) = Inr body \<and>
      json_Decode e body = Inl err"
  then have p: "flags_Parse e = Inr opts" and h: "http_Get e (request_uri e opts) = Inr body"
    and d: "json_Decode e body = Inl err" by simp_all
  note x = exec_decode_fails [OF p h d, of w]
  show "fst (exec e w) = 1" by (simp add: x)
  show "stdout (snd (exec e w)) = stdout w" by (simp add: x)
  show "stderr (snd (exec e w)) = stderr w @ ''error in parsing reponse: '' @ err @ newline"
    by (simp add: x)
next
  fix err
  assume "flags_Parse e = Inl (ErrHelp err)"
  then show "exec e w = (0, w)" by (rule exec_help)
qed

text \<open>
  Four runs from the initial state, with the default options: no item found, an unknown
  flag, no route to the server, and a body that is not JSON; and a request for help.
\<close>

theorem exit_status_witness:
  "(flags_Parse (env_ok default_options []) = Inr default_options \<and>
    http_Get (env_ok default_options []) (request_uri (env_ok default_options []) default_options) = Inr ''body'' \<and>
    json_Decode (env_ok default_options []) ''body'' = Inr [] \<and>
    fst (exec (env_ok default_options []) world0) = 0 \<and>
    stdout (snd (exec (env_ok default_options []) world0)) = [] \<and>
    stderr (snd (exec (env_ok default_options []) world0)) = []) \<and>
   (flags_Parse env_parse_fails = Inl (ErrOther ''unknown flag'') \<and>
    fst (exec env_parse_fails world0) = 1 \<and>
    stdout (snd (exec env_parse_fails world0)) = [] \<and>
    stderr (snd (exec env_parse_fails world0)) = ''error in parsing options: unknown flag'' @ newline) \<and>
   (flags_Parse env_get_fails = Inr default_options \<and>
    http_Get env_get_fails (request_uri env_get_fails default_options) = Inl ''no route'' \<and>
    fst (exec env_get_fails world0) = 1 \<and>
    stdout (snd (exec env_get_fails world0)) = [] \<and>
    stderr (snd (exec env_get_fails world0)) = ''error in requesting: no route'' @ newline) \<and>
   (flags_Parse env_decode_fails = Inr default_options \<and>
    http_Get env_decode_fails (request_uri env_decode_fails default_options) = Inr ''body'' \<and>
    json_Decode env_decode_fails ''body'' = Inl ''invalid character'' \<and>
    fst (exec env_decode_fails world0) = 1 \<and>
    stdout (snd (exec env_decode_fails world0)) = [] \<and>
    stderr (snd (exec env_decode_fails world0)) = ''error in parsing reponse: invalid character'' @ newline) \<and>
   (flags_Parse env_help = Inl (ErrHelp ''Usage'') \<and> exec env_help world0 = (0, world0))"
proof -
  have ok: "flags_Parse (env_ok default_options []) = Inr default_options \<and>
    http_Get (env_ok default_options []) (request_uri (env_ok default_options []) default_options) = Inr ''body'' \<and>
    json_Decode (env_ok default_options []) ''body'' = Inr []"
    by (simp add: env_ok_simps)
  have pf: "flags_Parse env_parse_fails = Inl (ErrOther ''unknown flag'')"
    by (simp add: env_fails_simps)
  have gf: "flags_Parse env_get_fails = Inr default_options \<and>
    http_Get env_get_fails (request_uri env_get_fails default_options) = Inl ''no route''"
    by (simp add: env_fails_simps)
  have df: "flags_Parse env_decode_fails = Inr default_options \<and>
    http_Get env_decode_fails (request_uri env_decode_fails default_options) = Inr ''body'' \<and>
    json_Decode env_decode_fails ''body'' = Inl ''invalid character''"
    by (simp add: env_fails_simps)
  have hp: "flags_Parse env_help = Inl (ErrHelp ''Usage'')"
    by (simp add: env_fails_simps)
  have 1: "fst (exec (env_ok default_options []) world0) = 0 \<and>
    stdout (snd (exec (env_ok default_options []) world0)) = [] \<and>
    stderr (snd (exec (env_ok default_options []) world0)) = []"
    using exit_status [of "env_ok default_options []" world0] ok
    by (simp add: world0_simps env_ok_simps)
  have 2: "fst (exec env_parse_fails world0) = 1 \<and>
    stdout (snd (exec env_parse_fails world0)) = [] \<and>
    stderr (snd (exec env_parse_fails world0)) = ''error in parsing options: unknown flag'' @ newline"
    using exit_status [of env_parse_fails world0] pf by (simp add: world0_simps)
  have 3: "fst (exec env_get_fails world0) = 1 \<and>
    stdout (snd (exec env_get_fails world0)) = [] \<and>
    stderr (snd (exec env_get_fails world0)) = ''error in requesting: no route'' @ newline"
    using exit_status [of env_get_fails world0] gf by (simp add: world0_simps)
  have 4: "fst (exec env_decode_fails world0) = 1 \<and>
    stdout (snd (exec env_decode_fails world0)) = [] \<and>
    stderr (snd (exec env_decode_fails world0)) = ''error in parsing reponse: invalid character'' @ newline"
    using exit_status [of env_decode_fails world0] df by (simp add: world0_simps)
  have 5: "exec env_help world0 = (0, world0)"
    using exit_status [of env_help world0] hp by simp
  from ok pf gf df hp 1 2 3 4 5 show ?thesis by blast
qed

section \<open>The rows\<close>

text \<open>
  C8. When the run succeeds, what is flushed to standard output is the layout of the rows
  of the items, one after the other in the order of the response. The row of an item is
  its full name, a tab, its description and a newline; when the Language option is empty,
  the row is prefixed with the shortened language of the item in brackets and a tab, and
  when the option is given there is no such prefix. The shortening maps \<open>Emacs Lisp\<close> to
  \<open>elisp\<close>, \<open>JavaScript\<close> to \<open>JS\<close>, \<open>CoffeeScript\<close> to \<open>Coffee\<close>, and every other string,
  the empty one included, to itself.
\<close>

theorem rows_rendered:
  assumes "flags_Parse e = Inr opts"
    and "http_Get e (request_uri e opts) = Inr body"
    and "json_Decode e body = Inr items"
  shows "stdout (snd (exec e w)) = stdout w @ tabwriter_Flush e (concat (map (row opts) items)) \<and>
         (\<forall>it. row opts it =
            (if Language opts = [] then ''['' @ shortenLanguage (item_Language it) @ '']'' @ tab else []) @
            item_FullName it @ tab @ item_Description it @ newline) \<and>
         (\<forall>it buf. write_item opts it buf = buf @ row opts it) \<and>
         shortenLanguage ''Emacs Lisp'' = ''elisp'' \<and>
         shortenLanguage ''JavaScript'' = ''JS'' \<and>
         shortenLanguage ''CoffeeScript'' = ''Coffee'' \<and>
         shortenLanguage [] = [] \<and>
         (\<forall>lang. lang \<noteq> ''Emacs Lisp'' \<and> lang \<noteq> ''JavaScript'' \<and> lang \<noteq> ''CoffeeScript'' \<longrightarrow>
            shortenLanguage lang = lang)"
proof -
  have "\<forall>it buf. write_item opts it buf = buf @ row opts it"
    by (simp add: write_item_def row_def Let_def)
  then show ?thesis
    by (simp add: exec_success [OF assms] fold_write_item row_def)
qed

text \<open>
  Two items and no Language option: a JavaScript repository and one with no language and
  no description. With the Language option, the rows have no prefix.
\<close>

theorem rows_rendered_witness:
  "(flags_Parse (env_ok default_options [item1, item2]) = Inr default_options \<and>
    http_Get (env_ok default_options [item1, item2])
      (request_uri (env_ok default_options [item1, item2]) default_options) = Inr ''body'' \<and>
    json_Decode (env_ok default_options [item1, item2]) ''body'' = Inr [item1, item2] \<and>
    stdout (snd (exec (env_ok default_options [item1, item2]) world0)) =
      ''[JS]'' @ tab @ ''a/b'' @ tab @ ''d'' @ newline @ ''[]'' @ tab @ ''c/d'' @ tab @ newline) \<and>
   (flags_Parse (env_ok (default_options\<lparr>Language := ''Go''\<rparr>) [item1, item2]) =
      Inr (default_options\<lparr>Language := ''Go''\<rparr>) \<and>
    http_Get (env_ok (default_options\<lparr>Language := ''Go''\<rparr>) [item1, item2])
      (request_uri (env_ok (default_options\<lparr>Language := ''Go''\<rparr>) [item1, item2])
         (default_options\<lparr>Language := ''Go''\<rparr>)) = Inr ''body'' \<and>
    json_Decode (env_ok (default_options\<lparr>Language := ''Go''\<rparr>) [item1, item2]) ''body'' =
      Inr [item1, item2] \<and>
    stdout (snd (exec (env_ok (default_options\<lparr>Language := ''Go''\<rparr>) [item1, item2]) world0)) =
      ''a/b'' @ tab @ ''d'' @ newline @ ''c/d'' @ tab @ newline) \<and>
   shortenLanguage ''Go'' = ''Go''"
proof -
  let ?e = "env_ok default_options [item1, item2]"
  let ?g = "default_options\<lparr>Language := ''Go''\<rparr>"
  let ?f = "env_ok ?g [item1, item2]"
  have p: "flags_Parse ?e = Inr default_options" by (simp add: env_ok_simps)
  have h: "http_Get ?e (request_uri ?e default_options) = Inr ''body''" by (simp add: env_ok_simps)
  have d: "json_Decode ?e ''body'' = Inr [item1, item2]" by (simp add: env_ok_simps)
  have p': "flags_Parse ?f = Inr ?g" by (simp add: env_ok_simps)
  have h': "http_Get ?f (request_uri ?f ?g) = Inr ''body''" by (simp add: env_ok_simps)
  have d': "json_Decode ?f ''body'' = Inr [item1, item2]" by (simp add: env_ok_simps)
  have l: "Language default_options = []" by (simp add: default_options_def)
  have l': "Language ?g = ''Go''" by simp
  have r1: "row default_options item1 = ''[JS]'' @ tab @ ''a/b'' @ tab @ ''d'' @ newline"
    by (simp add: row_def l item1_def)
  have r2: "row default_options item2 = ''[]'' @ tab @ ''c/d'' @ tab @ newline"
    by (simp add: row_def l item2_def)
  have r1': "row ?g item1 = ''a/b'' @ tab @ ''d'' @ newline"
    by (simp add: row_def item1_def)
  have r2': "row ?g item2 = ''c/d'' @ tab @ newline"
    by (simp add: row_def item2_def)
  have "stdout (snd (exec ?e world0)) =
          stdout world0 @ tabwriter_Flush ?e (concat (map (row default_options) [item1, item2]))"
    using rows_rendered [OF p h d, of world0] by (rule conjunct1)
  then have 1: "stdout (snd (exec ?e world0)) =
               ''[JS]'' @ tab @ ''a/b'' @ tab @ ''d'' @ newline @ ''[]'' @ tab @ ''c/d'' @ tab @ newline"
    by (simp add: world0_simps env_ok_simps r1 r2)
  have "stdout (snd (exec ?f world0)) =
          stdout world0 @ tabwriter_Flush ?f (concat (map (row ?g) [item1, item2]))"
    using rows_rendered [OF p' h' d', of world0] by (rule conjunct1)
  then have 2: "stdout (snd (exec ?f world0)) = ''a/b'' @ tab @ ''d'' @ newline @ ''c/d'' @ tab @ newline"
    by (simp add: world0_simps env_ok_simps r1' r2')
  have 3: "shortenLanguage ''Go'' = ''Go''" by simp
  from p h d p' h' d' 1 2 3 show ?thesis by blast
qed

section \<open>An item with no language\<close>

text \<open>
  C10. When the Language option is empty and an item of the response has the empty string
  as its language, the text written for this item, after the rows of the items before it
  and before those of the items after it, is the two characters \<open>[]\<close>, a tab, the full
  name, a tab, the description and a newline: the prefix is written, with nothing between
  the brackets.
\<close>

theorem empty_language_brackets:
  assumes "flags_Parse e = Inr opts"
    and "http_Get e (request_uri e opts) = Inr body"
    and "json_Decode e body = Inr (pre @ it # post)"
    and "Language opts = []" and "item_Language it = []"
  shows "stdout (snd (exec e w)) =
           stdout w @ tabwriter_Flush e
             (fold (write_item opts) post
                (fold (write_item opts) pre [] @
                 ''[]'' @ tab @ item_FullName it @ tab @ item_Description it @ newline)) \<and>
         write_item opts it buf =
           buf @ ''[]'' @ tab @ item_FullName it @ tab @ item_Description it @ newline"
  using assms(4,5) by (simp add: exec_success [OF assms(1-3)] write_item_def Let_def)

theorem empty_language_brackets_witness:
  "flags_Parse (env_ok default_options [item1, item2]) = Inr default_options \<and>
   http_Get (env_ok default_options [item1, item2])
     (request_uri (env_ok default_options [item1, item2]) default_options) = Inr ''body'' \<and>
   json_Decode (env_ok default_options [item1, item2]) ''body'' = Inr ([item1] @ item2 # []) \<and>
   Language default_options = [] \<and> item_Language item2 = [] \<and>
   stdout (snd (exec (env_ok default_options [item1, item2]) world0)) =
     ''[JS]'' @ tab @ ''a/b'' @ tab @ ''d'' @ newline @ ''[]'' @ tab @ ''c/d'' @ tab @ newline \<and>
   write_item default_options item2 [] = ''[]'' @ tab @ ''c/d'' @ tab @ newline"
proof -
  let ?e = "env_ok default_options [item1, item2]"
  have p: "flags_Parse ?e = Inr default_options" by (simp add: env_ok_simps)
  have h: "http_Get ?e (request_uri ?e default_options) = Inr ''body''" by (simp add: env_ok_simps)
  have d: "json_Decode ?e ''body'' = Inr ([item1] @ item2 # [])" by (simp add: env_ok_simps)
  have l: "Language default_options = []" by (simp add: default_options_def)
  have i: "item_Language item2 = []" by (simp add: item2_def)
  have f: "write_item default_options item1 [] = ''[JS]'' @ tab @ ''a/b'' @ tab @ ''d'' @ newline"
    by (simp add: write_item_def l item1_def)
  have n: "item_FullName item2 = ''c/d''" "item_Description item2 = []"
    by (simp_all add: item2_def)
  from empty_language_brackets [OF p h d l i, of world0 "[]"]
  have "stdout (snd (exec ?e world0)) =
     ''[JS]'' @ tab @ ''a/b'' @ tab @ ''d'' @ newline @ ''[]'' @ tab @ ''c/d'' @ tab @ newline \<and>
   write_item default_options item2 [] = ''[]'' @ tab @ ''c/d'' @ tab @ newline"
    by (simp add: world0_simps env_ok_simps f n)
  with p h d l i show ?thesis by blast
qed

section \<open>The response body\<close>

text \<open>
  C9, as the specification states it, does not hold: after a run that succeeds, and after
  one whose decoding fails, the body handed over by the request is still open.
\<close>

theorem body_closed_counterexample:
  "open_bodies (snd (exec (env_ok default_options []) world0)) = 1 \<and>
   open_bodies (snd (exec env_decode_fails world0)) = 1 \<and>
   open_bodies world0 = 0"
  by (simp add: exec_def env_ok_def env_decode_fails_def world0_def printErr_def Let_def)

text \<open>
  C9, amended. \<^verbatim>\<open>exec\<close> never closes the body: whenever the request is answered, on the
  path of success and on the path of a decoding failure alike, the run ends with one more
  open body than it started with. When the request fails or the options are not parsed, no
  body is opened.
\<close>

theorem body_left_open:
  "(\<forall>opts body. flags_Parse e = Inr opts \<and> http_Get e (request_uri e opts) = Inr body \<longrightarrow>
      open_bodies (snd (exec e w)) = open_bodies w + 1) \<and>
   (\<forall>opts err. flags_Parse e = Inr opts \<and> http_Get e (request_uri e opts) = Inl err \<longrightarrow>
      open_bodies (snd (exec e w)) = open_bodies w) \<and>
   (\<forall>err. flags_Parse e = Inl err \<longrightarrow> open_bodies (snd (exec e w)) = open_bodies w)"
  by (simp add: exec_def printErr_def Let_def split: sum.splits parse_error.splits)

theorem body_left_open_witness:
  "flags_Parse (env_ok default_options []) = Inr default_options \<and>
   http_Get (env_ok default_options []) (request_uri (env_ok default_options []) default_options) = Inr ''body'' \<and>
   open_bodies (snd (exec (env_ok default_options []) world0)) = 1 \<and>
   flags_Parse env_decode_fails = Inr default_options \<and>
   http_Get env_decode_fails (request_uri env_decode_fails default_options) = Inr ''body'' \<and>
   open_bodies (snd (exec env_decode_fails world0)) = 1 \<and>
   flags_Parse env_get_fails = Inr default_options \<and>
   http_Get env_get_fails (request_uri env_get_fails default_options) = Inl ''no route'' \<and>
   open_bodies (snd (exec env_get_fails world0)) = 0 \<and>
   flags_Parse env_parse_fails = Inl (ErrOther ''unknown flag'') \<and>
   open_bodies (snd (exec env_parse_fails world0)) = 0"
proof -
  have ok: "flags_Parse (env_ok default_options []) = Inr default_options \<and>
    http_Get (env_ok default_options []) (request_uri (env_ok default_options []) default_options) = Inr ''body''"
    by (simp add: env_ok_simps)
  have df: "flags_Parse env_decode_fails = Inr default_options \<and>
    http_Get env_decode_fails (request_uri env_decode_fails default_options) = Inr ''body''"
    by (simp add: env_fails_simps)
  have gf: "flags_Parse env_get_fails = Inr default_options \<and>
    http_Get env_get_fails (request_uri env_get_fails default_options) = Inl ''no route''"
    by (simp add: env_fails_simps)
  have pf: "flags_Parse env_parse_fails = Inl (ErrOther ''unknown flag'')"
    by (simp add: env_fails_simps)
  have 1: "open_bodies (snd (exec (env_ok default_options []) world0)) = 1"
    using body_left_open [of "env_ok default_options []" world0] ok by (simp add: world0_simps)
  have 2: "open_bodies (snd (exec env_decode_fails world0)) = 1"
    using body_left_open [of env_decode_fails world0] df by (simp add: world0_simps)
  have 3: "open_bodies (snd (exec env_get_fails world0)) = 0"
    using body_left_open [of env_get_fails world0] gf by (simp add: world0_simps)
  have 4: "open_bodies (snd (exec env_parse_fails world0)) = 0"
    using body_left_open [of env_parse_fails world0] pf by (simp add: world0_simps)
  from ok df gf pf 1 2 3 4 show ?thesis by blast
qed

end
